theory Spec2Isabelle
  imports Main "HOL-Library.Word"
begin

unbundle bit_operations_syntax

section \<open>JavaScript values and the platform functions the system calls\<close>

text \<open>
  The system (\<^verbatim>\<open>src/ArcSystem.js\<close>) receives untyped JavaScript values: the
  \<^verbatim>\<open>detail\<close> of a custom event and the decoded content of a broker message.
  A value is one of the JSON-like shapes below. A string is a list of bytes; a number is
  the bit pattern of its IEEE-754 double; an object is the list of its own properties in
  insertion order (the first entry of a key is the one that counts).
\<close>

datatype jsval =
    JUndefined
  | JNull
  | JBool bool
  | JNum "64 word"
  | JStr string
  | JArr "jsval list"
  | JObj "(string \<times> jsval) list"

text \<open>
  \<^verbatim>\<open>ToBoolean\<close>, the test of \<^verbatim>\<open>if (v)\<close>: \<^verbatim>\<open>undefined\<close>, \<^verbatim>\<open>null\<close>,
  \<^verbatim>\<open>false\<close>, \<^verbatim>\<open>+0\<close>, \<^verbatim>\<open>-0\<close>, \<^verbatim>\<open>NaN\<close> and the empty string are falsy, every
  array and object is truthy.
\<close>

fun ToBoolean :: "jsval \<Rightarrow> bool" where
  "ToBoolean JUndefined = False"
| "ToBoolean JNull = False"
| "ToBoolean (JBool b) = b"
| "ToBoolean (JNum n) =
     (let m = n AND 0x7FFFFFFFFFFFFFFF in m \<noteq> 0 \<and> m \<le> 0x7FF0000000000000)"
| "ToBoolean (JStr s) = (s \<noteq> [])"
| "ToBoolean (JArr xs) = True"
| "ToBoolean (JObj kvs) = True"

text \<open>
  Reading a property \<^verbatim>\<open>v.name\<close>. On \<^verbatim>\<open>undefined\<close> and \<^verbatim>\<open>null\<close> it raises a
  TypeError (\<open>None\<close>). The system reads only \<^verbatim>\<open>deviceName\<close>, \<^verbatim>\<open>events\<close>,
  \<^verbatim>\<open>type\<close> and \<^verbatim>\<open>connected\<close>; none of them is inherited from a built-in prototype,
  so on a primitive or an array the read gives \<^verbatim>\<open>undefined\<close>.
\<close>

fun getProp :: "jsval \<Rightarrow> string \<Rightarrow> jsval option" where
  "getProp JUndefined name = None"
| "getProp JNull name = None"
| "getProp (JObj kvs) name = (case map_of kvs name of None \<Rightarrow> Some JUndefined | Some v \<Rightarrow> Some v)"
| "getProp v name = Some JUndefined"

text \<open>
  \<^verbatim>\<open>Object.prototype.hasOwnProperty.call(v, name)\<close>: a TypeError (\<open>None\<close>) on
  \<^verbatim>\<open>undefined\<close> and \<^verbatim>\<open>null\<close>; other primitives are wrapped and have no such own
  property.
\<close>

fun hasOwnProperty :: "jsval \<Rightarrow> string \<Rightarrow> bool option" where
  "hasOwnProperty JUndefined name = None"
| "hasOwnProperty JNull name = None"
| "hasOwnProperty (JObj kvs) name = Some (name \<in> fst ` set kvs)"
| "hasOwnProperty v name = Some False"

text \<open>
  The operator \<^verbatim>\<open>name in v\<close>: a TypeError (\<open>None\<close>) when \<^verbatim>\<open>v\<close> is not an object.
\<close>

fun has_in :: "string \<Rightarrow> jsval \<Rightarrow> bool option" where
  "has_in name (JObj kvs) = Some (name \<in> fst ` set kvs)"
| "has_in name (JArr xs) = Some False"
| "has_in name v = None"

text \<open>
  The values a \<^verbatim>\<open>for (const x of v)\<close> loop visits: the elements of an array, the
  characters of a string; anything else is not iterable (TypeError, \<open>None\<close>).
\<close>

fun iterate :: "jsval \<Rightarrow> jsval list option" where
  "iterate (JArr xs) = Some xs"
| "iterate (JStr s) = Some (map (\<lambda>c. JStr [c]) s)"
| "iterate v = None"

subsection \<open>Strings\<close>

text \<open>
  \<^verbatim>\<open>s.replace(p, r)\<close> with a string pattern replaces the first occurrence only. The
  system calls it with the one-character strings \<^verbatim>\<open>' '\<close> and \<^verbatim>\<open>'-'\<close>.
\<close>

fun String_replace :: "char \<Rightarrow> char \<Rightarrow> string \<Rightarrow> string" where
  "String_replace p r [] = []"
| "String_replace p r (c # cs) = (if c = p then r # cs else c # String_replace p r cs)"

text \<open>\<^verbatim>\<open>s.toLowerCase()\<close> on the ASCII letters; other bytes stay as they are.\<close>

definition lower_char :: "char \<Rightarrow> char" where
  "lower_char c =
     (if 65 \<le> (of_char c :: nat) \<and> (of_char c :: nat) \<le> 90
      then char_of ((of_char c :: nat) + 32) else c)"

definition toLowerCase :: "string \<Rightarrow> string" where
  "toLowerCase s = map lower_char s"

text \<open>
  \<^verbatim>\<open>s.split(d)\<close> for a one-character separator: the segments between the separators,
  never an empty array (\<^verbatim>\<open>''.split('/')\<close> is \<^verbatim>\<open>['']\<close>).
\<close>

fun split_acc :: "char \<Rightarrow> string \<Rightarrow> string \<Rightarrow> string list" where
  "split_acc d acc [] = [rev acc]"
| "split_acc d acc (c # cs) =
     (if c = d then rev acc # split_acc d [] cs else split_acc d (c # acc) cs)"

definition String_split :: "char \<Rightarrow> string \<Rightarrow> string list" where
  "String_split d s = split_acc d [] s"

text \<open>\<^verbatim>\<open>xs.join(sep)\<close> on an array of strings.\<close>

fun join :: "string \<Rightarrow> string list \<Rightarrow> string" where
  "join sep [] = []"
| "join sep [x] = x"
| "join sep (x # y # ys) = x @ sep @ join sep (y # ys)"

subsection \<open>\<^verbatim>\<open>JSON.stringify\<close>\<close>

definition hex_digit :: "nat \<Rightarrow> char" where
  "hex_digit n = ''0123456789abcdef'' ! n"

definition quote_char :: "char \<Rightarrow> string" where
  "quote_char c =
     (if c = CHR 0x22 then [CHR 0x5C, CHR 0x22]
      else if c = CHR 0x5C then [CHR 0x5C, CHR 0x5C]
      else if c = CHR 0x08 then [CHR 0x5C, CHR ''b'']
      else if c = CHR 0x0C then [CHR 0x5C, CHR ''f'']
      else if c = CHR 0x0A then [CHR 0x5C, CHR ''n'']
      else if c = CHR 0x0D then [CHR 0x5C, CHR ''r'']
      else if c = CHR 0x09 then [CHR 0x5C, CHR ''t'']
      else if (of_char c :: nat) < 32
        then [CHR 0x5C, CHR ''u'', CHR ''0'', CHR ''0'',
              hex_digit ((of_char c :: nat) div 16), hex_digit ((of_char c :: nat) mod 16)]
      else [c])"

definition quoteJSONString :: "string \<Rightarrow> string" where
  "quoteJSONString s = [CHR 0x22] @ concat (map quote_char s) @ [CHR 0x22]"

text \<open>
  The serialisation of a value, \<open>None\<close> where \<^verbatim>\<open>JSON.stringify\<close> gives
  \<^verbatim>\<open>undefined\<close>: such a property is left out of an object and such an element of an
  array is written \<^verbatim>\<open>null\<close>. The text of a number (\<^verbatim>\<open>Number::toString\<close>,
  \<^verbatim>\<open>null\<close> for \<^verbatim>\<open>NaN\<close> and the infinities) is a parameter \<open>num\<close>.
\<close>

fun serialize :: "(64 word \<Rightarrow> string) \<Rightarrow> jsval \<Rightarrow> string option" where
  "serialize num JUndefined = None"
| "serialize num JNull = Some ''null''"
| "serialize num (JBool b) = Some (if b then ''true'' else ''false'')"
| "serialize num (JNum n) = Some (num n)"
| "serialize num (JStr s) = Some (quoteJSONString s)"
| "serialize num (JArr xs) =
     Some (''['' @ join '',''
        (map (\<lambda>x. case serialize num x of None \<Rightarrow> ''null'' | Some t \<Rightarrow> t) xs) @ '']'')"
| "serialize num (JObj kvs) =
     Some (''{'' @ join '',''
        (concat (map (\<lambda>(k, v). case serialize num v of None \<Rightarrow> []
                       | Some t \<Rightarrow> [quoteJSONString k @ '':'' @ t]) kvs)) @ ''}'')"

text \<open>\<^verbatim>\<open>JSON.stringify\<close> of an object literal, which is always a string.\<close>

definition JSON_stringify :: "(64 word \<Rightarrow> string) \<Rightarrow> (string \<times> jsval) list \<Rightarrow> string" where
  "JSON_stringify num kvs =
     ''{'' @ join '',''
        (concat (map (\<lambda>(k, v). case serialize num v of None \<Rightarrow> []
                       | Some t \<Rightarrow> [quoteJSONString k @ '':'' @ t]) kvs)) @ ''}''"

section \<open>Session identity and topics\<close>

text \<open>
  The pair code of \<^verbatim>\<open>arcsConnectListener\<close> (line 112):
  \<^verbatim>\<open>this.data.app + '/' + event.detail.deviceName.replace(' ', '-').toLowerCase()\<close>.
\<close>

definition derivePaircode :: "string \<Rightarrow> string \<Rightarrow> string" where
  "derivePaircode appName deviceName =
     appName @ ''/'' @ toLowerCase (String_replace (CHR '' '') (CHR ''-'') deviceName)"

text \<open>A topic, \<^verbatim>\<open>this.paircode + '/' + ArcTopics.X\<close> (lines 117 to 120 and others).\<close>

definition topicFor :: "string \<Rightarrow> string \<Rightarrow> string" where
  "topicFor p s = p @ ''/'' @ s"

text \<open>
  The sub-topic of \<^verbatim>\<open>messageListener\<close> (lines 174 and 175):
  \<^verbatim>\<open>topicPath = topic.split('/')\<close>, then \<^verbatim>\<open>topicPath[topicPath.length - 1]\<close>, which
  is \<^verbatim>\<open>undefined\<close> (\<open>None\<close>) on an empty array.
\<close>

definition subTopicOf :: "string \<Rightarrow> string option" where
  "subTopicOf topic =
     (let topicPath = String_split (CHR ''/'') topic
      in if length topicPath = 0 then None
         else Some (topicPath ! (length topicPath - 1)))"

section \<open>Errors, effects and the state of one instance\<close>

text \<open>
  \<^verbatim>\<open>src/EventDetailError.js\<close>: the error carries nothing but its message, the three
  lines of the constructor joined by a space.
\<close>

definition EventDetailError_message :: "string \<Rightarrow> string \<Rightarrow> string \<Rightarrow> string" where
  "EventDetailError_message event property expected =
     join '' ''
       [''When dispatching the '' @ [CHR 0x27] @ event @ [CHR 0x27] @ '' event,'',
        ''you need to pass a '' @ [CHR 0x27] @ ''detail'' @ [CHR 0x27] @ '' object that has a ''
          @ [CHR 0x27] @ property @ [CHR 0x27] @ '' property (typeof '' @ expected @ '').'',
        ''Read about event data here: https://developer.mozilla.org/en-US/docs/Web/API/CustomEvent/detail'']"

text \<open>
  What a listener can raise: the system's own \<open>EventDetailError\<close>, the TypeError and
  SyntaxError of the language, the rejection of an awaited broker call and whatever
  \<^verbatim>\<open>parsePayload\<close> throws. The listeners are \<^verbatim>\<open>async\<close>: a raise is the rejection
  of the promise the listener returns.
\<close>

datatype error =
    EventDetailError string
  | TypeError
  | SyntaxError
  | BrokerError
  | PayloadError

text \<open>The bound functions of \<^verbatim>\<open>bindFunctions\<close>, as they are registered as listeners.\<close>

datatype handler =
    EnterVRListener
  | ArcsConnectListener
  | ArcsDisconnectListener
  | MessageListener
  | ActivateEventsListener
  | DeactivateEventsListener

text \<open>The native event \<^verbatim>\<open>parsePayload\<close> builds: its type and its init dictionary.\<close>

datatype dom_event = DomEvent string jsval

text \<open>
  The calls that leave the instance, in the order they are made: the broker client's
  (\<^verbatim>\<open>connectAsync\<close>, \<^verbatim>\<open>subscribe\<close>, \<^verbatim>\<open>unsubscribe\<close>, \<^verbatim>\<open>publish\<close> with its topic,
  payload and quality of service, \<^verbatim>\<open>end\<close>), \<^verbatim>\<open>this.el.emit\<close>,
  \<^verbatim>\<open>window.dispatchEvent\<close>, \<^verbatim>\<open>console.debug\<close> (of a text, or of a text
  concatenated with a value), and the focus calls of \<^verbatim>\<open>enterVRListener\<close>.
\<close>

datatype effect =
    ConnectAsync string
  | Subscribe string
  | Unsubscribe string
  | Publish string string nat
  | ClientEnd
  | Emit string
  | DispatchEvent dom_event
  | ConsoleDebug string
  | ConsoleDebugValue string jsval
  | ActiveElementBlur
  | BodyFocus

record arc_topics =
  STATUS :: string
  DATA :: string
  ADD_EVENT_LISTENER :: string
  REMOVE_EVENT_LISTENER :: string

text \<open>The component's \<^verbatim>\<open>schema\<close>; \<open>path\<close> is \<open>None\<close> when it is null or undefined.\<close>

record schema_data =
  protocol :: string
  host :: string
  port :: nat
  app :: string
  path :: "string option"

text \<open>
  The broker client \<^verbatim>\<open>connectAsync\<close> resolves to: its \<^verbatim>\<open>connected\<close> flag (true
  when \<^verbatim>\<open>connectAsync\<close> resolves, false once \<^verbatim>\<open>end\<close> has resolved) and the
  listeners of its \<^verbatim>\<open>message\<close> event.
\<close>

record mqtt_client =
  url :: string
  connected :: bool
  on_message :: "handler list"

text \<open>
  One instance: the fields of \<^verbatim>\<open>this\<close> (\<open>data\<close>, \<open>paircode\<close>, \<open>mqttClient\<close>),
  the listeners the instance has on its element and on the window, and the calls made
  so far.
\<close>

record state =
  data :: schema_data
  paircode :: string
  mqttClient :: "mqtt_client option"
  el_listeners :: "(string \<times> handler) list"
  window_listeners :: "(string \<times> handler) list"
  trace :: "effect list"

text \<open>
  What the system imports or finds on the page. \<open>ArcTopics\<close> and \<open>parsePayload\<close>
  come from the package \<^verbatim>\<open>arc-events\<close> (\<open>None\<close>: it throws); \<open>JSON_parse\<close> is
  \<^verbatim>\<open>JSON.parse\<close> (\<open>None\<close>: a SyntaxError); \<open>Number_toString\<close> is the text of a
  number in \<^verbatim>\<open>JSON.stringify\<close>; \<open>resolves\<close> tells whether the awaited broker call
  that ends the given trace resolves or rejects; \<open>activeElement_is_HTMLElement\<close> is the
  test of \<^verbatim>\<open>enterVRListener\<close> after the given trace.
\<close>

record env =
  ArcTopics :: arc_topics
  parsePayload :: "jsval \<Rightarrow> dom_event option"
  JSON_parse :: "string \<Rightarrow> jsval option"
  Number_toString :: "64 word \<Rightarrow> string"
  resolves :: "effect list \<Rightarrow> bool"
  activeElement_is_HTMLElement :: "effect list \<Rightarrow> bool"

text \<open>
  \<^verbatim>\<open>addEventListener\<close> ignores a listener that is registered already;
  \<^verbatim>\<open>removeEventListener\<close> ignores one that is not.
\<close>

definition addEventListener ::
  "string \<Rightarrow> handler \<Rightarrow> (string \<times> handler) list \<Rightarrow> (string \<times> handler) list" where
  "addEventListener name h ls = (if (name, h) \<in> set ls then ls else ls @ [(name, h)])"

definition removeEventListener ::
  "string \<Rightarrow> handler \<Rightarrow> (string \<times> handler) list \<Rightarrow> (string \<times> handler) list" where
  "removeEventListener name h ls = filter (\<lambda>p. p \<noteq> (name, h)) ls"

definition perform :: "effect \<Rightarrow> state \<Rightarrow> state" where
  "perform e s = s\<lparr>trace := trace s @ [e]\<rparr>"

text \<open>An awaited broker call: it is made, then it resolves or rejects.\<close>

definition await :: "env \<Rightarrow> effect \<Rightarrow> state \<Rightarrow> error option \<times> state" where
  "await env e s =
     (let s' = perform e s
      in if resolves env (trace s') then (None, s') else (Some BrokerError, s'))"

text \<open>Sequencing: the statements after a raise do not run.\<close>

definition andThen ::
  "error option \<times> state \<Rightarrow> (state \<Rightarrow> error option \<times> state) \<Rightarrow> error option \<times> state" where
  "andThen r f = (case r of (None, s) \<Rightarrow> f s | (Some e, s) \<Rightarrow> (Some e, s))"

text \<open>The decimal text of the port in the template literal of line 114.\<close>

fun show_nat :: "nat \<Rightarrow> string" where
  "show_nat n =
     (if n < 10 then [''0123456789'' ! n]
      else show_nat (n div 10) @ [''0123456789'' ! (n mod 10)])"

declare show_nat.simps [simp del]

definition broker_url :: "schema_data \<Rightarrow> string" where
  "broker_url d =
     protocol d @ ''://'' @ host d @ '':'' @ show_nat (port d)
       @ (case path d of None \<Rightarrow> [] | Some p \<Rightarrow> p)"

section \<open>The listeners of \<^verbatim>\<open>src/ArcSystem.js\<close>\<close>

text \<open>\<^verbatim>\<open>init\<close> (lines 44 to 62).\<close>

definition init :: "schema_data \<Rightarrow> state" where
  "init d =
     \<lparr>data = d, paircode = [], mqttClient = None,
      el_listeners =
        addEventListener ''arcs-connect'' ArcsConnectListener
          (addEventListener ''enter-vr'' EnterVRListener []),
      window_listeners = [], trace = []\<rparr>"

text \<open>\<^verbatim>\<open>enterVRListener\<close> (lines 79 to 85).\<close>

definition enterVRListener :: "env \<Rightarrow> state \<Rightarrow> error option \<times> state" where
  "enterVRListener env s =
     (let s1 = (if activeElement_is_HTMLElement env (trace s) then perform ActiveElementBlur s
                else s)
      in (None, perform BodyFocus s1))"

text \<open>\<^verbatim>\<open>onPeerData\<close> (lines 92 to 94).\<close>

definition onPeerData :: "env \<Rightarrow> jsval \<Rightarrow> state \<Rightarrow> error option \<times> state" where
  "onPeerData env payload s =
     (case parsePayload env payload of
        None \<Rightarrow> (Some PayloadError, s)
      | Some ev \<Rightarrow> (None, perform (DispatchEvent ev) s))"

text \<open>
  The test of lines 213 and 248:
  \<^verbatim>\<open>!this.mqttClient || this.mqttClient.connected === false\<close>.
\<close>

definition not_connected :: "state \<Rightarrow> bool" where
  "not_connected s = (case mqttClient s of None \<Rightarrow> True | Some c \<Rightarrow> connected c = False)"

text \<open>
  \<^verbatim>\<open>activateEvents\<close> (lines 211 to 225). The publish is not awaited: a rejection of
  it does not reach the caller.
\<close>

definition activateEvents :: "env \<Rightarrow> jsval \<Rightarrow> state \<Rightarrow> state" where
  "activateEvents env type s =
     (let s1 = perform (ConsoleDebugValue ''Activate event: '' type) s
      in if not_connected s1
         then perform (ConsoleDebug ''MQTT not connected.'') s1
         else perform
           (Publish (topicFor (paircode s1) (ADD_EVENT_LISTENER (ArcTopics env)))
              (JSON_stringify (Number_toString env) [(''type'', type)]) 2) s1)"

text \<open>\<^verbatim>\<open>activateEventsListener\<close> (lines 197 to 205).\<close>

definition activateEventsListener :: "env \<Rightarrow> jsval \<Rightarrow> state \<Rightarrow> error option \<times> state" where
  "activateEventsListener env detail s =
     (case has_in ''events'' detail of
        None \<Rightarrow> (Some TypeError, s)
      | Some False \<Rightarrow>
          (Some (EventDetailError
             (EventDetailError_message ''arc-remote-add-listener'' ''events'' ''array<string>'')), s)
      | Some True \<Rightarrow>
          (case getProp detail ''events'' of
             None \<Rightarrow> (Some TypeError, s)
           | Some events \<Rightarrow>
               (case iterate events of
                  None \<Rightarrow> (Some TypeError, s)
                | Some types \<Rightarrow> (None, foldl (\<lambda>s' type. activateEvents env type s') s types))))"

text \<open>\<^verbatim>\<open>deactivateEvents\<close> (lines 246 to 260).\<close>

definition deactivateEvents :: "env \<Rightarrow> jsval \<Rightarrow> state \<Rightarrow> state" where
  "deactivateEvents env type s =
     (let s1 = perform (ConsoleDebugValue ''Deactivate event: '' type) s
      in if not_connected s1
         then perform (ConsoleDebug ''MQTT not connected.'') s1
         else perform
           (Publish (topicFor (paircode s1) (REMOVE_EVENT_LISTENER (ArcTopics env)))
              (JSON_stringify (Number_toString env) [(''type'', type)]) 2) s1)"

text \<open>\<^verbatim>\<open>deactivateEventsListener\<close> (lines 232 to 240).\<close>

definition deactivateEventsListener :: "env \<Rightarrow> jsval \<Rightarrow> state \<Rightarrow> error option \<times> state" where
  "deactivateEventsListener env detail s =
     (case has_in ''events'' detail of
        None \<Rightarrow> (Some TypeError, s)
      | Some False \<Rightarrow>
          (Some (EventDetailError
             (EventDetailError_message ''arc-remote-remove-listener'' ''events'' ''array<string>'')), s)
      | Some True \<Rightarrow>
          (case getProp detail ''events'' of
             None \<Rightarrow> (Some TypeError, s)
           | Some events \<Rightarrow>
               (case iterate events of
                  None \<Rightarrow> (Some TypeError, s)
                | Some types \<Rightarrow> (None, foldl (\<lambda>s' type. deactivateEvents env type s') s types))))"

text \<open>
  \<^verbatim>\<open>arcsConnectListener\<close> (lines 104 to 137); its argument is \<^verbatim>\<open>event.detail\<close>.
\<close>

definition arcsConnectListener :: "env \<Rightarrow> jsval \<Rightarrow> state \<Rightarrow> error option \<times> state" where
  "arcsConnectListener env detail s0 =
     (let s1 = s0\<lparr>el_listeners :=
                  removeEventListener ''arcs-connect'' ArcsConnectListener (el_listeners s0)\<rparr>;
          s2 = s1\<lparr>window_listeners :=
                  addEventListener ''beforeunload'' ArcsDisconnectListener (window_listeners s1)\<rparr>
      in case hasOwnProperty detail ''deviceName'' of
           None \<Rightarrow> (Some TypeError, s2)
         | Some False \<Rightarrow>
             (Some (EventDetailError
                (EventDetailError_message ''arcs-connect'' ''deviceName'' ''string'')), s2)
         | Some True \<Rightarrow>
             (case getProp detail ''deviceName'' of
                Some (JStr deviceName) \<Rightarrow>
                  (let s3 = s2\<lparr>paircode := derivePaircode (app (data s2)) deviceName\<rparr>
                   in andThen (await env (ConnectAsync (broker_url (data s3))) s3) (\<lambda>s4.
                      let s5 = s4\<lparr>mqttClient := Some \<lparr>url = broker_url (data s4),
                                   connected = True, on_message = [MessageListener]\<rparr>\<rparr>
                      in andThen (await env
                           (Subscribe (topicFor (paircode s5) (STATUS (ArcTopics env)))) s5) (\<lambda>s6.
                         andThen (await env
                           (Subscribe (topicFor (paircode s6) (DATA (ArcTopics env)))) s6) (\<lambda>s7.
                         andThen (await env
                           (Publish (topicFor (paircode s7) (STATUS (ArcTopics env)))
                              (JSON_stringify (Number_toString env)
                                 [(''type'', JStr ''vr''), (''connected'', JBool True)]) 2) s7) (\<lambda>s8.
                         andThen
                           (case getProp detail ''events'' of
                              None \<Rightarrow> (Some TypeError, s8)
                            | Some events \<Rightarrow>
                                if ToBoolean events then activateEventsListener env detail s8
                                else (None, s8)) (\<lambda>s9.
                         (None, s9\<lparr>el_listeners :=
                            addEventListener ''arcs-disconnect'' ArcsDisconnectListener
                              (addEventListener ''arc-remote-remove-listener'' DeactivateEventsListener
                                 (addEventListener ''arc-remote-add-listener'' ActivateEventsListener
                                    (el_listeners s9)))\<rparr>)))))))
              | _ \<Rightarrow> (Some TypeError, s2)))"

text \<open>\<^verbatim>\<open>arcsDisconnectListener\<close> (lines 143 to 163).\<close>

definition arcsDisconnectListener :: "env \<Rightarrow> state \<Rightarrow> error option \<times> state" where
  "arcsDisconnectListener env s0 =
     (let s1 = s0\<lparr>el_listeners :=
                  removeEventListener ''arcs-disconnect'' ArcsDisconnectListener (el_listeners s0)\<rparr>;
          s2 = s1\<lparr>window_listeners :=
                  removeEventListener ''beforeunload'' ArcsDisconnectListener (window_listeners s1)\<rparr>
      in case mqttClient s2 of
           None \<Rightarrow> (Some TypeError, s2)
         | Some c \<Rightarrow>
             andThen (await env
               (Unsubscribe (topicFor (paircode s2) (DATA (ArcTopics env)))) s2) (\<lambda>s3.
             andThen (await env
               (Unsubscribe (topicFor (paircode s3) (STATUS (ArcTopics env)))) s3) (\<lambda>s4.
             andThen (await env
               (Publish (topicFor (paircode s4) (STATUS (ArcTopics env)))
                  (JSON_stringify (Number_toString env)
                     [(''type'', JStr ''vr''), (''connected'', JBool False)]) 2) s4) (\<lambda>s5.
             andThen (await env ClientEnd s5) (\<lambda>s6.
             (None, s6\<lparr>mqttClient := Some (c\<lparr>connected := False\<rparr>),
                        el_listeners :=
                          addEventListener ''arcs-connect'' ArcsConnectListener
                            (el_listeners s6)\<rparr>))))))"

text \<open>
  \<^verbatim>\<open>messageListener\<close> (lines 173 to 190). The payload is parsed before the
  \<^verbatim>\<open>switch\<close>; the first matching \<^verbatim>\<open>case\<close> is taken.
\<close>

definition messageListener :: "env \<Rightarrow> string \<Rightarrow> string \<Rightarrow> state \<Rightarrow> error option \<times> state" where
  "messageListener env topic payload s =
     (let subTopic = subTopicOf topic
      in case JSON_parse env payload of
           None \<Rightarrow> (Some SyntaxError, s)
         | Some message \<Rightarrow>
             if subTopic = Some (STATUS (ArcTopics env)) then
               (case getProp message ''type'' of
                  None \<Rightarrow> (Some TypeError, s)
                | Some t \<Rightarrow>
                    if t = JStr ''remote'' then
                      (case getProp message ''connected'' of
                         None \<Rightarrow> (Some TypeError, s)
                       | Some c \<Rightarrow>
                           if ToBoolean c then (None, perform (Emit ''arc-remote-connected'') s)
                           else (None, s))
                    else (None, s))
             else if subTopic = Some (DATA (ArcTopics env)) then onPeerData env message s
             else (None, s))"

section \<open>Events reaching the instance\<close>

text \<open>
  What can happen to an instance: an event on its element (with its \<^verbatim>\<open>detail\<close>), an
  event on the window, a message from the broker (topic and payload). A listener runs
  to its end before the next event is looked at; an event that \<^verbatim>\<open>window.dispatchEvent\<close>
  relays reaches the window's listeners as a window event of its own.
\<close>

datatype trigger =
    ElEvent string jsval
  | WindowEvent string
  | BrokerMessage string string

datatype target = Element | Window

definition listeners_of :: "target \<Rightarrow> state \<Rightarrow> (string \<times> handler) list" where
  "listeners_of tg s = (case tg of Element \<Rightarrow> el_listeners s | Window \<Rightarrow> window_listeners s)"

text \<open>
  A listener called with an event. \<^verbatim>\<open>messageListener\<close> is never registered for one;
  called so it would fail on \<^verbatim>\<open>topic.split\<close>.
\<close>

fun run_handler :: "env \<Rightarrow> handler \<Rightarrow> jsval \<Rightarrow> state \<Rightarrow> error option \<times> state" where
  "run_handler env EnterVRListener detail s = enterVRListener env s"
| "run_handler env ArcsConnectListener detail s = arcsConnectListener env detail s"
| "run_handler env ArcsDisconnectListener detail s = arcsDisconnectListener env s"
| "run_handler env MessageListener detail s = (Some TypeError, s)"
| "run_handler env ActivateEventsListener detail s = activateEventsListener env detail s"
| "run_handler env DeactivateEventsListener detail s = deactivateEventsListener env detail s"

text \<open>
  Dispatching an event to the listeners registered for it when the dispatch began, in
  their order; one removed meanwhile is skipped. The rejection of an \<^verbatim>\<open>async\<close>
  listener does not stop the dispatch: it is recorded with the listener.
\<close>

fun dispatch ::
  "env \<Rightarrow> target \<Rightarrow> string \<Rightarrow> jsval \<Rightarrow> handler list \<Rightarrow> state
     \<Rightarrow> state \<times> (handler \<times> error option) list" where
  "dispatch env tg name detail [] s = (s, [])"
| "dispatch env tg name detail (h # hs) s =
     (if (name, h) \<in> set (listeners_of tg s) then
        (case run_handler env h detail s of
           (r, s') \<Rightarrow>
             (case dispatch env tg name detail hs s' of
                (s'', outs) \<Rightarrow> (s'', (h, r) # outs)))
      else dispatch env tg name detail hs s)"

definition registered :: "string \<Rightarrow> (string \<times> handler) list \<Rightarrow> handler list" where
  "registered name ls = map snd (filter (\<lambda>p. fst p = name) ls)"

definition step :: "env \<Rightarrow> trigger \<Rightarrow> state \<Rightarrow> state \<times> (handler \<times> error option) list" where
  "step env t s =
     (case t of
        ElEvent name detail \<Rightarrow>
          dispatch env Element name detail (registered name (el_listeners s)) s
      | WindowEvent name \<Rightarrow>
          dispatch env Window name JUndefined (registered name (window_listeners s)) s
      | BrokerMessage topic payload \<Rightarrow>
          (case mqttClient s of
             None \<Rightarrow> (s, [])
           | Some c \<Rightarrow>
               if MessageListener \<in> set (on_message c) then
                 (case messageListener env topic payload s of
                    (r, s') \<Rightarrow> (s', [(MessageListener, r)]))
               else (s, [])))"

fun run :: "env \<Rightarrow> trigger list \<Rightarrow> state \<Rightarrow> state \<times> (handler \<times> error option) list" where
  "run env [] s = (s, [])"
| "run env (t # ts) s =
     (case step env t s of
        (s', outs) \<Rightarrow> (case run env ts s' of (s'', outs') \<Rightarrow> (s'', outs @ outs')))"

section \<open>A page to run the listeners on\<close>

text \<open>
  The examples below run the listeners on the setup of the README
  (\<^verbatim>\<open>wss://test.mosquitto.org:8081\<close>, application \<^verbatim>\<open>arcs-demo-app\<close>). The four
  topic names, the decoder and \<^verbatim>\<open>parsePayload\<close> belong to other packages; the
  examples use the instances below, a decoder that knows the payloads of the examples
  and rejects any other text, and a broker whose calls all resolve. The theorems
  themselves hold for every environment.
\<close>

definition example_topics :: arc_topics where
  "example_topics =
     \<lparr>STATUS = ''status'', DATA = ''data'', ADD_EVENT_LISTENER = ''add-event-listener'',
      REMOVE_EVENT_LISTENER = ''remove-event-listener''\<rparr>"

definition example_data :: schema_data where
  "example_data =
     \<lparr>protocol = ''wss'', host = ''test.mosquitto.org'', port = 8081, app = ''arcs-demo-app'',
      path = Some []\<rparr>"

definition example_JSON_parse :: "string \<Rightarrow> jsval option" where
  \<open>example_JSON_parse text =
     (if text = ''null'' then Some JNull
      else if text = ''{"type":"remote","connected":true}''
        then Some (JObj [(''type'', JStr ''remote''), (''connected'', JBool True)])
      else if text = ''{"type":"keydown","key":"w"}''
        then Some (JObj [(''type'', JStr ''keydown''), (''key'', JStr ''w'')])
      else None)\<close>

definition example_parsePayload :: "jsval \<Rightarrow> dom_event option" where
  "example_parsePayload message =
     (case getProp message ''type'' of
        Some (JStr t) \<Rightarrow> Some (DomEvent t message)
      | _ \<Rightarrow> None)"

definition example_env :: env where
  "example_env =
     \<lparr>ArcTopics = example_topics, parsePayload = example_parsePayload,
      JSON_parse = example_JSON_parse, Number_toString = (\<lambda>n. ''null''),
      resolves = (\<lambda>tr. True), activeElement_is_HTMLElement = (\<lambda>tr. False)\<rparr>"

text \<open>An instance in the middle of a session with the device \<^verbatim>\<open>duck\<close>.\<close>

definition example_session :: state where
  "example_session =
     \<lparr>data = example_data, paircode = ''arcs-demo-app/duck'',
      mqttClient = Some \<lparr>url = broker_url example_data, connected = True,
                         on_message = [MessageListener]\<rparr>,
      el_listeners =
        [(''enter-vr'', EnterVRListener),
         (''arc-remote-add-listener'', ActivateEventsListener),
         (''arc-remote-remove-listener'', DeactivateEventsListener),
         (''arcs-disconnect'', ArcsDisconnectListener)],
      window_listeners = [(''beforeunload'', ArcsDisconnectListener)],
      trace = []\<rparr>"

section \<open>Properties of the strings\<close>

lemma split_acc_not_Nil: "split_acc d acc s \<noteq> []"
  by (induction s arbitrary: acc) auto

lemma split_acc_no_delimiter: "d \<notin> set s \<Longrightarrow> split_acc d acc s = [rev acc @ s]"
  by (induction s arbitrary: acc) auto

lemma last_split_acc:
  "d \<notin> set s \<Longrightarrow> last (split_acc d acc (p @ d # s)) = s"
proof (induction p arbitrary: acc)
  case Nil
  then show ?case by (simp add: split_acc_no_delimiter)
next
  case (Cons c p)
  then show ?case by (simp add: split_acc_not_Nil)
qed

lemma subTopicOf_last: "subTopicOf topic = Some (last (String_split (CHR ''/'') topic))"
  by (simp add: subTopicOf_def Let_def String_split_def split_acc_not_Nil last_conv_nth)

text \<open>
  C1 (the code at a device name with two spaces). The claim reads: for every application
  and device name the pair code is deterministic and has case and spaces normalised.
  \<^verbatim>\<open>replace\<close> with a string pattern replaces the first space only, so the second
  space of \<^verbatim>\<open>My Big Device\<close> stays in the pair code.
\<close>

theorem derivePaircode_second_space_kept:
  "derivePaircode ''app'' ''My Big Device'' = ''app/my-big device''"
  by code_simp

text \<open>
  The example of the specification, a device name with one space, comes out as the
  specification says.
\<close>

lemma derivePaircode_one_space:
  "derivePaircode ''app'' ''My Device'' = ''app/my-device''"
  by code_simp

text \<open>
  A device name with at most one space has no space left after the replacement; with
  more, the later ones stay.
\<close>

lemma String_replace_single:
  "length (filter (\<lambda>c. c = p) s) \<le> 1 \<Longrightarrow> p \<noteq> r \<Longrightarrow> p \<notin> set (String_replace p r s)"
proof (induction s)
  case Nil
  then show ?case by simp
next
  case (Cons c s)
  show ?case
  proof (cases "c = p")
    case True
    with Cons.prems have "filter (\<lambda>c. c = p) s = []"
      by simp
    then have "p \<notin> set s"
      by (auto simp add: filter_empty_conv)
    with True Cons.prems show ?thesis by simp
  next
    case False
    with Cons show ?thesis by simp
  qed
qed

text \<open>
  C2. For every pair code \<open>p\<close> and every sub-topic \<open>s\<close> without the delimiter
  \<^verbatim>\<open>/\<close>, the last segment of the topic composed from \<open>p\<close> and \<open>s\<close> is \<open>s\<close>.
\<close>

theorem subTopicOf_topicFor:
  "CHR ''/'' \<notin> set s \<Longrightarrow> subTopicOf (topicFor p s) = Some s"
  by (simp add: subTopicOf_last String_split_def topicFor_def last_split_acc)

theorem subTopicOf_topicFor_witness:
  "CHR ''/'' \<notin> set ''status'' \<and> subTopicOf (topicFor ''app/my-device'' ''status'') = Some ''status''"
  using subTopicOf_topicFor [of "''status''" "''app/my-device''"] by simp

section \<open>Facts about the building blocks\<close>

lemma JSON_stringify_type:
  \<open>JSON_stringify num [(''type'', JStr t)] = ''{"type":'' @ quoteJSONString t @ ''}''\<close>
  by (simp add: JSON_stringify_def quoteJSONString_def quote_char_def)

lemma JSON_stringify_status:
  \<open>JSON_stringify num [(''type'', JStr ''vr''), (''connected'', JBool b)] =
     (if b then ''{"type":"vr","connected":true}'' else ''{"type":"vr","connected":false}'')\<close>
  by (simp add: JSON_stringify_def quoteJSONString_def quote_char_def)

lemma map_of_Some_in_fst: "map_of kvs k = Some v \<Longrightarrow> k \<in> fst ` set kvs"
  by (metis domI dom_map_of_conv_image_fst)

lemma iterate_falsy: "iterate ev = Some ts \<Longrightarrow> \<not> ToBoolean ev \<Longrightarrow> ts = []"
  by (cases ev) auto

lemma await_cases:
  "await env e s =
     (if resolves env (trace s @ [e]) then None else Some BrokerError, s\<lparr>trace := trace s @ [e]\<rparr>)"
  by (simp add: await_def perform_def Let_def)

lemma andThen_simps [simp]:
  "andThen (None, s) f = f s"
  "andThen (Some e, s) f = (Some e, s)"
  by (simp_all add: andThen_def)

lemma not_connected_trace [simp]: "not_connected (s\<lparr>trace := tr\<rparr>) = not_connected s"
  by (simp add: not_connected_def)

lemma activateEvents_trace:
  "activateEvents env t s =
     s\<lparr>trace := trace s @
        [ConsoleDebugValue ''Activate event: '' t,
         if not_connected s then ConsoleDebug ''MQTT not connected.''
         else Publish (topicFor (paircode s) (ADD_EVENT_LISTENER (ArcTopics env)))
                (JSON_stringify (Number_toString env) [(''type'', t)]) 2]\<rparr>"
  by (simp add: activateEvents_def perform_def not_connected_def Let_def)

lemma deactivateEvents_trace:
  "deactivateEvents env t s =
     s\<lparr>trace := trace s @
        [ConsoleDebugValue ''Deactivate event: '' t,
         if not_connected s then ConsoleDebug ''MQTT not connected.''
         else Publish (topicFor (paircode s) (REMOVE_EVENT_LISTENER (ArcTopics env)))
                (JSON_stringify (Number_toString env) [(''type'', t)]) 2]\<rparr>"
  by (simp add: deactivateEvents_def perform_def not_connected_def Let_def)

lemma foldl_activateEvents:
  "foldl (\<lambda>s' t. activateEvents env t s') s ts =
     s\<lparr>trace := trace s @ concat (map (\<lambda>t.
        [ConsoleDebugValue ''Activate event: '' t,
         if not_connected s then ConsoleDebug ''MQTT not connected.''
         else Publish (topicFor (paircode s) (ADD_EVENT_LISTENER (ArcTopics env)))
                (JSON_stringify (Number_toString env) [(''type'', t)]) 2]) ts)\<rparr>"
proof (induction ts arbitrary: s)
  case Nil
  show ?case by simp
next
  case (Cons t ts)
  show ?case by (simp only: foldl_Cons Cons.IH) (simp add: activateEvents_trace)
qed

lemma foldl_deactivateEvents:
  "foldl (\<lambda>s' t. deactivateEvents env t s') s ts =
     s\<lparr>trace := trace s @ concat (map (\<lambda>t.
        [ConsoleDebugValue ''Deactivate event: '' t,
         if not_connected s then ConsoleDebug ''MQTT not connected.''
         else Publish (topicFor (paircode s) (REMOVE_EVENT_LISTENER (ArcTopics env)))
                (JSON_stringify (Number_toString env) [(''type'', t)]) 2]) ts)\<rparr>"
proof (induction ts arbitrary: s)
  case Nil
  show ?case by simp
next
  case (Cons t ts)
  show ?case by (simp only: foldl_Cons Cons.IH) (simp add: deactivateEvents_trace)
qed

lemma activateEventsListener_events:
  "map_of kvs ''events'' = Some ev \<Longrightarrow>
   activateEventsListener env (JObj kvs) s =
     (case iterate ev of
        None \<Rightarrow> (Some TypeError, s)
      | Some ts \<Rightarrow> (None, foldl (\<lambda>s' t. activateEvents env t s') s ts))"
  by (simp add: activateEventsListener_def map_of_Some_in_fst)

lemma broker_url_example: "broker_url example_data = ''wss://test.mosquitto.org:8081''"
  by (simp add: broker_url_def example_data_def show_nat.simps)

lemma derivePaircode_duck: "derivePaircode ''arcs-demo-app'' ''duck'' = ''arcs-demo-app/duck''"
  by (simp add: derivePaircode_def toLowerCase_def lower_char_def)

lemma subTopicOf_status_example: "subTopicOf ''arcs-demo-app/duck/status'' = Some ''status''"
  by (simp add: subTopicOf_def String_split_def)

lemma subTopicOf_data_example: "subTopicOf ''arcs-demo-app/duck/data'' = Some ''data''"
  by (simp add: subTopicOf_def String_split_def)

lemma subTopicOf_add_example:
  "subTopicOf ''arcs-demo-app/duck/add-event-listener'' = Some ''add-event-listener''"
  by (simp add: subTopicOf_def String_split_def)

section \<open>Validation of the requests\<close>

lemma arcsConnectListener_no_deviceName:
  "''deviceName'' \<notin> fst ` set kvs \<Longrightarrow>
   arcsConnectListener env (JObj kvs) s =
     (Some (EventDetailError (EventDetailError_message ''arcs-connect'' ''deviceName'' ''string'')),
      s\<lparr>el_listeners := removeEventListener ''arcs-connect'' ArcsConnectListener (el_listeners s),
        window_listeners :=
          addEventListener ''beforeunload'' ArcsDisconnectListener (window_listeners s)\<rparr>)"
  by (simp add: arcsConnectListener_def Let_def)

text \<open>
  C3 (as amended). A connect request whose \<^verbatim>\<open>detail\<close> object has no own property
  \<^verbatim>\<open>deviceName\<close> fails with the \<open>EventDetailError\<close> of \<^verbatim>\<open>arcs-connect\<close>. No call
  has been made by then (no connect, subscribe or publish: the trace is as before), and
  the pair code and the client are as before. Two changes precede the error: the
  \<^verbatim>\<open>arcs-connect\<close> listener is removed from the element and the \<^verbatim>\<open>beforeunload\<close>
  listener is added to the window.
\<close>

theorem connect_without_deviceName:
  assumes "''deviceName'' \<notin> fst ` set kvs"
  shows "arcsConnectListener env (JObj kvs) s =
     (Some (EventDetailError (EventDetailError_message ''arcs-connect'' ''deviceName'' ''string'')),
      s\<lparr>el_listeners := removeEventListener ''arcs-connect'' ArcsConnectListener (el_listeners s),
        window_listeners :=
          addEventListener ''beforeunload'' ArcsDisconnectListener (window_listeners s)\<rparr>)
    \<and> trace (snd (arcsConnectListener env (JObj kvs) s)) = trace s
    \<and> mqttClient (snd (arcsConnectListener env (JObj kvs) s)) = mqttClient s
    \<and> paircode (snd (arcsConnectListener env (JObj kvs) s)) = paircode s"
  using assms by (simp add: arcsConnectListener_no_deviceName)

theorem connect_without_deviceName_witness:
  "''deviceName'' \<notin> fst ` set [(''events'', JArr [JStr ''keydown''])]
   \<and> arcsConnectListener example_env (JObj [(''events'', JArr [JStr ''keydown''])]) (init example_data) =
     (Some (EventDetailError (EventDetailError_message ''arcs-connect'' ''deviceName'' ''string'')),
      (init example_data)\<lparr>el_listeners := [(''enter-vr'', EnterVRListener)],
        window_listeners := [(''beforeunload'', ArcsDisconnectListener)]\<rparr>)
   \<and> trace (snd (arcsConnectListener example_env (JObj [(''events'', JArr [JStr ''keydown''])])
        (init example_data))) = []"
  using connect_without_deviceName [of "[(''events'', JArr [JStr ''keydown''])]" example_env "init example_data"]
  by (simp add: init_def addEventListener_def removeEventListener_def)

text \<open>
  C3 as stated, with the error raised before any side effect, fails on a fresh instance
  and the empty \<^verbatim>\<open>detail\<close>: when the error is raised the element has lost its
  \<^verbatim>\<open>arcs-connect\<close> listener and the window has gained a \<^verbatim>\<open>beforeunload\<close> one.
\<close>

theorem connect_without_deviceName_changes_listeners:
  "fst (arcsConnectListener example_env (JObj []) (init example_data)) =
     Some (EventDetailError (EventDetailError_message ''arcs-connect'' ''deviceName'' ''string''))
   \<and> el_listeners (init example_data) =
       [(''enter-vr'', EnterVRListener), (''arcs-connect'', ArcsConnectListener)]
   \<and> window_listeners (init example_data) = []
   \<and> el_listeners (snd (arcsConnectListener example_env (JObj []) (init example_data))) =
       [(''enter-vr'', EnterVRListener)]
   \<and> window_listeners (snd (arcsConnectListener example_env (JObj []) (init example_data))) =
       [(''beforeunload'', ArcsDisconnectListener)]"
  by (simp add: arcsConnectListener_def Let_def init_def addEventListener_def removeEventListener_def)

text \<open>
  C4 (as amended). An activate or deactivate request whose \<^verbatim>\<open>detail\<close> object has no
  \<^verbatim>\<open>events\<close> property fails with the \<open>EventDetailError\<close> of its event and leaves the
  instance as it was (nothing is published). A request whose \<^verbatim>\<open>events\<close> is the empty
  list raises no error; it leaves the instance as it was too.
\<close>

theorem events_missing_or_empty:
  "(''events'' \<notin> fst ` set kvs \<longrightarrow>
      activateEventsListener env (JObj kvs) s =
        (Some (EventDetailError
           (EventDetailError_message ''arc-remote-add-listener'' ''events'' ''array<string>'')), s)
    \<and> deactivateEventsListener env (JObj kvs) s =
        (Some (EventDetailError
           (EventDetailError_message ''arc-remote-remove-listener'' ''events'' ''array<string>'')), s))
   \<and> (map_of kvs ''events'' = Some (JArr []) \<longrightarrow>
      activateEventsListener env (JObj kvs) s = (None, s)
    \<and> deactivateEventsListener env (JObj kvs) s = (None, s))"
  by (auto simp add: activateEventsListener_def deactivateEventsListener_def
      map_of_Some_in_fst)

theorem events_missing_or_empty_witness:
  "''events'' \<notin> fst ` set []
   \<and> activateEventsListener example_env (JObj []) example_session =
        (Some (EventDetailError
           (EventDetailError_message ''arc-remote-add-listener'' ''events'' ''array<string>'')),
         example_session)
   \<and> deactivateEventsListener example_env (JObj []) example_session =
        (Some (EventDetailError
           (EventDetailError_message ''arc-remote-remove-listener'' ''events'' ''array<string>'')),
         example_session)
   \<and> map_of [(''events'', JArr [])] ''events'' = Some (JArr [])
   \<and> activateEventsListener example_env (JObj [(''events'', JArr [])]) example_session =
        (None, example_session)
   \<and> deactivateEventsListener example_env (JObj [(''events'', JArr [])]) example_session =
        (None, example_session)"
  using events_missing_or_empty [of "[]" example_env example_session]
    events_missing_or_empty [of "[(''events'', JArr [])]" example_env example_session]
  by simp

text \<open>
  C4 as stated fails on the empty list: in a running session, both requests with
  \<^verbatim>\<open>events: []\<close> end without an error.
\<close>

theorem empty_events_raises_nothing:
  "activateEventsListener example_env (JObj [(''events'', JArr [])]) example_session =
     (None, example_session)
   \<and> deactivateEventsListener example_env (JObj [(''events'', JArr [])]) example_session =
     (None, example_session)"
  by (simp add: activateEventsListener_def deactivateEventsListener_def)

section \<open>The order of the broker calls\<close>

text \<open>
  C5. A connect request with a string \<^verbatim>\<open>deviceName\<close> that ends without an error has
  made exactly these calls, in this order: \<^verbatim>\<open>connectAsync\<close>, subscribe STATUS,
  subscribe DATA, publish \<^verbatim>\<open>{"type":"vr","connected":true}\<close> on STATUS with quality of
  service 2, and then, for each initial event type in turn, the diagnostic and the publish
  on ADD_EVENT_LISTENER of \<^verbatim>\<open>activateEvents\<close>.
\<close>

theorem connect_order:
  assumes "map_of kvs ''deviceName'' = Some (JStr d)"
    and "arcsConnectListener env (JObj kvs) s = (None, s')"
  shows \<open>trace s' = trace s @
      [ConnectAsync (broker_url (data s)),
       Subscribe (topicFor (derivePaircode (app (data s)) d) (STATUS (ArcTopics env))),
       Subscribe (topicFor (derivePaircode (app (data s)) d) (DATA (ArcTopics env))),
       Publish (topicFor (derivePaircode (app (data s)) d) (STATUS (ArcTopics env)))
         ''{"type":"vr","connected":true}'' 2]
      @ concat (map (\<lambda>t.
          [ConsoleDebugValue ''Activate event: '' t,
           Publish (topicFor (derivePaircode (app (data s)) d) (ADD_EVENT_LISTENER (ArcTopics env)))
             (JSON_stringify (Number_toString env) [(''type'', t)]) 2])
          (case map_of kvs ''events'' of
             None \<Rightarrow> []
           | Some events \<Rightarrow> (case iterate events of None \<Rightarrow> [] | Some types \<Rightarrow> types)))\<close>
proof (cases "map_of kvs ''events''")
  case None
  with assms show ?thesis
    by (auto simp add: arcsConnectListener_def Let_def await_cases JSON_stringify_status
        map_of_Some_in_fst split: if_splits)
next
  case (Some ev)
  show ?thesis
  proof (cases "iterate ev")
    case None
    with Some assms show ?thesis
      by (auto simp add: arcsConnectListener_def Let_def await_cases JSON_stringify_status
        map_of_Some_in_fst activateEventsListener_events split: if_splits)
  next
    case (Some ts)
    with \<open>map_of kvs ''events'' = Some ev\<close> assms show ?thesis
      by (auto simp add: arcsConnectListener_def Let_def await_cases JSON_stringify_status
        map_of_Some_in_fst activateEventsListener_events foldl_activateEvents not_connected_def
        iterate_falsy split: if_splits)
  qed
qed

lemma connect_example_succeeds:
  "fst (arcsConnectListener example_env
          (JObj [(''deviceName'', JStr ''duck''), (''events'', JArr [JStr ''keydown'', JStr ''keyup''])])
          (init example_data)) = None"
  by (simp add: arcsConnectListener_def Let_def await_cases example_env_def
      activateEventsListener_def)

theorem connect_order_witness:
  \<open>map_of [(''deviceName'', JStr ''duck''), (''events'', JArr [JStr ''keydown'', JStr ''keyup''])]
      ''deviceName'' = Some (JStr ''duck'')
   \<and> fst (arcsConnectListener example_env
          (JObj [(''deviceName'', JStr ''duck''), (''events'', JArr [JStr ''keydown'', JStr ''keyup''])])
          (init example_data)) = None
   \<and> trace (snd (arcsConnectListener example_env
          (JObj [(''deviceName'', JStr ''duck''), (''events'', JArr [JStr ''keydown'', JStr ''keyup''])])
          (init example_data))) =
      [ConnectAsync (broker_url example_data),
       Subscribe ''arcs-demo-app/duck/status'',
       Subscribe ''arcs-demo-app/duck/data'',
       Publish ''arcs-demo-app/duck/status'' ''{"type":"vr","connected":true}'' 2,
       ConsoleDebugValue ''Activate event: '' (JStr ''keydown''),
       Publish ''arcs-demo-app/duck/add-event-listener'' ''{"type":"keydown"}'' 2,
       ConsoleDebugValue ''Activate event: '' (JStr ''keyup''),
       Publish ''arcs-demo-app/duck/add-event-listener'' ''{"type":"keyup"}'' 2]\<close>
proof -
  let ?kvs = "[(''deviceName'', JStr ''duck''), (''events'', JArr [JStr ''keydown'', JStr ''keyup''])]"
  let ?r = "arcsConnectListener example_env (JObj ?kvs) (init example_data)"
  have ok: "fst ?r = None"
    by (rule connect_example_succeeds)
  then have run: "?r = (None, snd ?r)"
    by (metis prod.collapse)
  have dn: "map_of ?kvs ''deviceName'' = Some (JStr ''duck'')"
    by simp
  show ?thesis
    using connect_order [OF dn run] ok
    by (simp add: init_def example_env_def example_topics_def example_data_def topicFor_def
        derivePaircode_duck JSON_stringify_type quoteJSONString_def quote_char_def)
qed

text \<open>
  C6. A disconnect of an instance that has a client makes its broker calls in this
  order: unsubscribe DATA, unsubscribe STATUS, publish \<^verbatim>\<open>{"type":"vr","connected":false}\<close>
  on STATUS with quality of service 2, end. The calls it makes are always an initial
  part of this list (it stops at the first call that rejects), and all four when it ends
  without an error.
\<close>

theorem disconnect_order:
  assumes "mqttClient s = Some c"
  shows \<open>(fst (arcsDisconnectListener env s) = None \<longrightarrow>
       trace (snd (arcsDisconnectListener env s)) = trace s @
         [Unsubscribe (topicFor (paircode s) (DATA (ArcTopics env))),
          Unsubscribe (topicFor (paircode s) (STATUS (ArcTopics env))),
          Publish (topicFor (paircode s) (STATUS (ArcTopics env)))
            ''{"type":"vr","connected":false}'' 2,
          ClientEnd])
    \<and> trace (snd (arcsDisconnectListener env s)) \<in>
        {trace s @ [Unsubscribe (topicFor (paircode s) (DATA (ArcTopics env)))],
         trace s @ [Unsubscribe (topicFor (paircode s) (DATA (ArcTopics env))),
                    Unsubscribe (topicFor (paircode s) (STATUS (ArcTopics env)))],
         trace s @ [Unsubscribe (topicFor (paircode s) (DATA (ArcTopics env))),
                    Unsubscribe (topicFor (paircode s) (STATUS (ArcTopics env))),
                    Publish (topicFor (paircode s) (STATUS (ArcTopics env)))
                      ''{"type":"vr","connected":false}'' 2],
         trace s @ [Unsubscribe (topicFor (paircode s) (DATA (ArcTopics env))),
                    Unsubscribe (topicFor (paircode s) (STATUS (ArcTopics env))),
                    Publish (topicFor (paircode s) (STATUS (ArcTopics env)))
                      ''{"type":"vr","connected":false}'' 2,
                    ClientEnd]}\<close>
  using assms
  by (simp add: arcsDisconnectListener_def Let_def await_cases JSON_stringify_status)

theorem disconnect_order_witness:
  \<open>mqttClient example_session =
      Some \<lparr>url = broker_url example_data, connected = True, on_message = [MessageListener]\<rparr>
   \<and> fst (arcsDisconnectListener example_env example_session) = None
   \<and> trace (snd (arcsDisconnectListener example_env example_session)) =
       [Unsubscribe ''arcs-demo-app/duck/data'',
        Unsubscribe ''arcs-demo-app/duck/status'',
        Publish ''arcs-demo-app/duck/status'' ''{"type":"vr","connected":false}'' 2,
        ClientEnd]\<close>
proof -
  have c: "mqttClient example_session =
      Some \<lparr>url = broker_url example_data, connected = True, on_message = [MessageListener]\<rparr>"
    by (simp add: example_session_def)
  have ok: "fst (arcsDisconnectListener example_env example_session) = None"
    by (simp add: arcsDisconnectListener_def Let_def await_cases example_env_def
        example_session_def)
  show ?thesis
    using disconnect_order [OF c, of example_env] ok c
    by (simp add: example_session_def example_env_def example_topics_def topicFor_def)
qed

section \<open>Activation and deactivation\<close>

text \<open>
  C7. For an activate request whose \<^verbatim>\<open>events\<close> is the one-element list of a string
  \<open>t\<close>: no error is raised; when the client is absent or its \<^verbatim>\<open>connected\<close> flag is
  false (\<open>not_connected\<close>) nothing is published, only two diagnostics are written;
  otherwise exactly one message is published, on the ADD_EVENT_LISTENER topic, with the
  payload \<^verbatim>\<open>{"type":t}\<close> and quality of service 2. The deactivate request does the
  same on the REMOVE_EVENT_LISTENER topic.
\<close>

theorem activate_single_event:
  assumes "map_of kvs ''events'' = Some (JArr [JStr t])"
  shows \<open>activateEventsListener env (JObj kvs) s =
      (None, s\<lparr>trace := trace s @
         [ConsoleDebugValue ''Activate event: '' (JStr t),
          if not_connected s then ConsoleDebug ''MQTT not connected.''
          else Publish (topicFor (paircode s) (ADD_EVENT_LISTENER (ArcTopics env)))
                 (''{"type":'' @ quoteJSONString t @ ''}'') 2]\<rparr>)
    \<and> deactivateEventsListener env (JObj kvs) s =
      (None, s\<lparr>trace := trace s @
         [ConsoleDebugValue ''Deactivate event: '' (JStr t),
          if not_connected s then ConsoleDebug ''MQTT not connected.''
          else Publish (topicFor (paircode s) (REMOVE_EVENT_LISTENER (ArcTopics env)))
                 (''{"type":'' @ quoteJSONString t @ ''}'') 2]\<rparr>)\<close>
  using assms map_of_Some_in_fst [OF assms]
  by (simp add: activateEventsListener_def deactivateEventsListener_def
      activateEvents_trace deactivateEvents_trace JSON_stringify_type)

theorem activate_single_event_witness:
  \<open>map_of [(''events'', JArr [JStr ''keydown''])] ''events'' = Some (JArr [JStr ''keydown''])
   \<and> activateEventsListener example_env (JObj [(''events'', JArr [JStr ''keydown''])]) example_session =
      (None, example_session\<lparr>trace :=
         [ConsoleDebugValue ''Activate event: '' (JStr ''keydown''),
          Publish ''arcs-demo-app/duck/add-event-listener'' ''{"type":"keydown"}'' 2]\<rparr>)
   \<and> activateEventsListener example_env (JObj [(''events'', JArr [JStr ''keydown''])]) (init example_data) =
      (None, (init example_data)\<lparr>trace :=
         [ConsoleDebugValue ''Activate event: '' (JStr ''keydown''),
          ConsoleDebug ''MQTT not connected.'']\<rparr>)
   \<and> deactivateEventsListener example_env (JObj [(''events'', JArr [JStr ''keydown''])]) example_session =
      (None, example_session\<lparr>trace :=
         [ConsoleDebugValue ''Deactivate event: '' (JStr ''keydown''),
          Publish ''arcs-demo-app/duck/remove-event-listener'' ''{"type":"keydown"}'' 2]\<rparr>)\<close>
  using activate_single_event [of "[(''events'', JArr [JStr ''keydown''])]" "''keydown''" example_env example_session]
    activate_single_event [of "[(''events'', JArr [JStr ''keydown''])]" "''keydown''" example_env "init example_data"]
  by (simp add: example_session_def example_env_def example_topics_def init_def not_connected_def
      topicFor_def quoteJSONString_def quote_char_def)

section \<open>Inbound messages\<close>

text \<open>
  C8 (as amended). For a message whose payload decodes to a value other than
  \<^verbatim>\<open>null\<close>: on the STATUS sub-topic \<^verbatim>\<open>arc-remote-connected\<close> is emitted if and
  only if the value's \<^verbatim>\<open>type\<close> is the string \<^verbatim>\<open>remote\<close> and its \<^verbatim>\<open>connected\<close>
  is truthy, and in either case nothing else is done and no error is raised; on a
  sub-topic other than STATUS and DATA nothing is done and no error is raised.
\<close>

theorem status_message_routing:
  assumes "JSON_parse env payload = Some m"
  shows "(subTopicOf topic = Some (STATUS (ArcTopics env)) \<longrightarrow> m \<noteq> JNull \<longrightarrow> m \<noteq> JUndefined \<longrightarrow>
        messageListener env topic payload s =
          (None,
           if getProp m ''type'' = Some (JStr ''remote'')
              \<and> (case getProp m ''connected'' of None \<Rightarrow> False | Some c \<Rightarrow> ToBoolean c)
           then s\<lparr>trace := trace s @ [Emit ''arc-remote-connected'']\<rparr> else s))
    \<and> (subTopicOf topic \<noteq> Some (STATUS (ArcTopics env)) \<longrightarrow>
       subTopicOf topic \<noteq> Some (DATA (ArcTopics env)) \<longrightarrow>
        messageListener env topic payload s = (None, s))"
  using assms
  by (cases m) (auto simp add: messageListener_def perform_def Let_def split: option.splits)

theorem status_message_routing_witness:
  \<open>JSON_parse example_env ''{"type":"remote","connected":true}'' =
      Some (JObj [(''type'', JStr ''remote''), (''connected'', JBool True)])
   \<and> subTopicOf ''arcs-demo-app/duck/status'' = Some (STATUS (ArcTopics example_env))
   \<and> messageListener example_env ''arcs-demo-app/duck/status''
        ''{"type":"remote","connected":true}'' example_session =
      (None, example_session\<lparr>trace := [Emit ''arc-remote-connected'']\<rparr>)
   \<and> subTopicOf ''arcs-demo-app/duck/add-event-listener'' \<noteq> Some (STATUS (ArcTopics example_env))
   \<and> subTopicOf ''arcs-demo-app/duck/add-event-listener'' \<noteq> Some (DATA (ArcTopics example_env))
   \<and> messageListener example_env ''arcs-demo-app/duck/add-event-listener''
        ''{"type":"remote","connected":true}'' example_session =
      (None, example_session)\<close>
proof -
  have p: \<open>JSON_parse example_env ''{"type":"remote","connected":true}'' =
      Some (JObj [(''type'', JStr ''remote''), (''connected'', JBool True)])\<close>
    by (simp add: example_env_def example_JSON_parse_def)
  show ?thesis
    using status_message_routing [OF p, of "''arcs-demo-app/duck/status''" example_session]
      status_message_routing [OF p, of "''arcs-demo-app/duck/add-event-listener''" example_session]
      p
    by (simp add: subTopicOf_status_example subTopicOf_add_example example_env_def
        example_topics_def example_session_def)
qed

text \<open>
  C8 as stated, with no error for any other STATUS content, fails on the payload
  \<^verbatim>\<open>null\<close>: reading \<^verbatim>\<open>message.type\<close> raises a TypeError.
\<close>

theorem null_status_message_raises:
  "messageListener example_env ''arcs-demo-app/duck/status'' ''null'' example_session =
     (Some TypeError, example_session)"
  by (simp add: messageListener_def Let_def subTopicOf_status_example example_env_def
      example_JSON_parse_def example_topics_def)

text \<open>
  C9 (as amended). A message whose payload does not decode makes \<^verbatim>\<open>messageListener\<close>
  raise the SyntaxError of \<^verbatim>\<open>JSON.parse\<close> (the listener has no handler for it and
  writes no log); the instance is left exactly as it was. The broker's next message is
  handled as usual: a well-formed DATA message that follows is dispatched to the window.
\<close>

theorem malformed_payload:
  assumes "JSON_parse env payload = None"
  shows "messageListener env topic payload s = (Some SyntaxError, s)
    \<and> (\<forall>c topic' payload' m ev.
          mqttClient s = Some c \<longrightarrow> MessageListener \<in> set (on_message c) \<longrightarrow>
          subTopicOf topic' = Some (DATA (ArcTopics env)) \<longrightarrow>
          DATA (ArcTopics env) \<noteq> STATUS (ArcTopics env) \<longrightarrow>
          JSON_parse env payload' = Some m \<longrightarrow> parsePayload env m = Some ev \<longrightarrow>
          run env [BrokerMessage topic payload, BrokerMessage topic' payload'] s =
            (s\<lparr>trace := trace s @ [DispatchEvent ev]\<rparr>,
             [(MessageListener, Some SyntaxError), (MessageListener, None)]))"
  using assms
  by (auto simp add: messageListener_def Let_def step_def onPeerData_def perform_def)

theorem malformed_payload_witness:
  \<open>JSON_parse example_env ''{not json'' = None
   \<and> messageListener example_env ''arcs-demo-app/duck/data'' ''{not json'' example_session =
       (Some SyntaxError, example_session)
   \<and> run example_env
        [BrokerMessage ''arcs-demo-app/duck/data'' ''{not json'',
         BrokerMessage ''arcs-demo-app/duck/data'' ''{"type":"keydown","key":"w"}'']
        example_session =
       (example_session\<lparr>trace :=
          [DispatchEvent (DomEvent ''keydown''
             (JObj [(''type'', JStr ''keydown''), (''key'', JStr ''w'')]))]\<rparr>,
        [(MessageListener, Some SyntaxError), (MessageListener, None)])\<close>
proof -
  have p: "JSON_parse example_env ''{not json'' = None"
    by (simp add: example_env_def example_JSON_parse_def)
  have q: \<open>JSON_parse example_env ''{"type":"keydown","key":"w"}'' =
      Some (JObj [(''type'', JStr ''keydown''), (''key'', JStr ''w'')])\<close>
    by (simp add: example_env_def example_JSON_parse_def)
  have e: "parsePayload example_env (JObj [(''type'', JStr ''keydown''), (''key'', JStr ''w'')]) =
      Some (DomEvent ''keydown'' (JObj [(''type'', JStr ''keydown''), (''key'', JStr ''w'')]))"
    by (simp add: example_env_def example_parsePayload_def)
  have c: "mqttClient example_session =
      Some \<lparr>url = broker_url example_data, connected = True, on_message = [MessageListener]\<rparr>"
    by (simp add: example_session_def)
  have t: "subTopicOf ''arcs-demo-app/duck/data'' = Some (DATA (ArcTopics example_env))"
    by (simp add: subTopicOf_data_example example_env_def example_topics_def)
  have d: "DATA (ArcTopics example_env) \<noteq> STATUS (ArcTopics example_env)"
    by (simp add: example_env_def example_topics_def)
  from malformed_payload [OF p, of "''arcs-demo-app/duck/data''" example_session]
  have 1: "messageListener example_env ''arcs-demo-app/duck/data'' ''{not json'' example_session =
       (Some SyntaxError, example_session)"
    and 2: "\<And>c topic' payload' m ev.
          mqttClient example_session = Some c \<Longrightarrow> MessageListener \<in> set (on_message c) \<Longrightarrow>
          subTopicOf topic' = Some (DATA (ArcTopics example_env)) \<Longrightarrow>
          DATA (ArcTopics example_env) \<noteq> STATUS (ArcTopics example_env) \<Longrightarrow>
          JSON_parse example_env payload' = Some m \<Longrightarrow> parsePayload example_env m = Some ev \<Longrightarrow>
          run example_env [BrokerMessage ''arcs-demo-app/duck/data'' ''{not json'',
              BrokerMessage topic' payload'] example_session =
            (example_session\<lparr>trace := trace example_session @ [DispatchEvent ev]\<rparr>,
             [(MessageListener, Some SyntaxError), (MessageListener, None)])"
    by blast+
  have tr: "trace example_session = []"
    by (simp add: example_session_def)
  show ?thesis
    using p 1 2 [OF c _ t d q e] tr by simp
qed

text \<open>
  C9 as stated, with the malformed message logged and no error raised, fails in a running
  session on the payload \<^verbatim>\<open>{not json\<close>: the listener ends with a SyntaxError and has
  made no call, so nothing was logged.
\<close>

theorem malformed_payload_rejects_unlogged:
  "fst (messageListener example_env ''arcs-demo-app/duck/data'' ''{not json'' example_session) =
     Some SyntaxError
   \<and> trace (snd (messageListener example_env ''arcs-demo-app/duck/data'' ''{not json''
        example_session)) = trace example_session"
  by (simp add: messageListener_def Let_def example_env_def example_JSON_parse_def)

section \<open>The connect listener after a failed connect\<close>

lemma registered_removeEventListener:
  "registered n (removeEventListener n' h ls) =
     (if n = n' then filter (\<lambda>x. x \<noteq> h) (registered n ls) else registered n ls)"
  by (induction ls) (auto simp add: registered_def removeEventListener_def)

lemma registered_addEventListener:
  "registered n (addEventListener n' h ls) =
     (if n = n' \<and> h \<notin> set (registered n ls) then registered n ls @ [h] else registered n ls)"
  by (auto simp add: registered_def addEventListener_def image_iff)

lemma registered_singleton_mem:
  "registered n ls = [h] \<Longrightarrow> (n, h) \<in> set ls"
proof -
  assume a: "registered n ls = [h]"
  then have "h \<in> set (registered n ls)" by simp
  then show ?thesis by (auto simp add: registered_def)
qed

lemma activateEventsListener_el_listeners:
  "el_listeners (snd (activateEventsListener env detail s)) = el_listeners s"
  by (simp add: activateEventsListener_def foldl_activateEvents
      split: option.splits bool.splits)

lemma deactivateEventsListener_el_listeners:
  "el_listeners (snd (deactivateEventsListener env detail s)) = el_listeners s"
  by (simp add: deactivateEventsListener_def foldl_deactivateEvents
      split: option.splits bool.splits)

lemma messageListener_el_listeners:
  "el_listeners (snd (messageListener env topic payload s)) = el_listeners s"
  by (simp add: messageListener_def onPeerData_def perform_def Let_def split: option.splits)

lemma enterVRListener_el_listeners:
  "el_listeners (snd (enterVRListener env s)) = el_listeners s"
  by (simp add: enterVRListener_def perform_def Let_def)

lemma andThen_activateEventsListener:
  "andThen (activateEventsListener env detail s) f =
     (case fst (activateEventsListener env detail s) of
        None \<Rightarrow> f (snd (activateEventsListener env detail s))
      | Some e \<Rightarrow> (Some e, snd (activateEventsListener env detail s)))"
  by (cases "activateEventsListener env detail s") (auto split: option.splits)

lemma arcsConnectListener_connect_slot:
  "registered ''arcs-connect'' (el_listeners (snd (arcsConnectListener env detail s))) =
     filter (\<lambda>h. h \<noteq> ArcsConnectListener) (registered ''arcs-connect'' (el_listeners s))"
  by (simp add: arcsConnectListener_def Let_def await_cases
      registered_removeEventListener registered_addEventListener
      activateEventsListener_el_listeners andThen_activateEventsListener
      split: option.splits bool.splits jsval.splits)

lemma arcsDisconnectListener_connect_slot:
  "registered ''arcs-connect'' (el_listeners (snd (arcsDisconnectListener env s))) =
     (if fst (arcsDisconnectListener env s) = None
         \<and> ArcsConnectListener \<notin> set (registered ''arcs-connect'' (el_listeners s))
      then registered ''arcs-connect'' (el_listeners s) @ [ArcsConnectListener]
      else registered ''arcs-connect'' (el_listeners s))"
  by (simp add: arcsDisconnectListener_def Let_def await_cases
      registered_removeEventListener registered_addEventListener
      split: option.splits)

lemma run_handler_connect_slot:
  assumes "registered ''arcs-connect'' (el_listeners s) = []"
    and "run_handler env h detail s = (r, s')"
    and "(h, r) \<noteq> (ArcsDisconnectListener, None)"
  shows "registered ''arcs-connect'' (el_listeners s') = []"
proof (cases h)
  case EnterVRListener
  with assms enterVRListener_el_listeners [of env s] show ?thesis by simp
next
  case ArcsConnectListener
  with assms arcsConnectListener_connect_slot [of env detail s] show ?thesis by simp
next
  case ArcsDisconnectListener
  with assms arcsDisconnectListener_connect_slot [of env s] show ?thesis by simp
next
  case MessageListener
  with assms show ?thesis by simp
next
  case ActivateEventsListener
  with assms activateEventsListener_el_listeners [of env detail s] show ?thesis by simp
next
  case DeactivateEventsListener
  with assms deactivateEventsListener_el_listeners [of env detail s] show ?thesis by simp
qed

lemma dispatch_connect_slot:
  "registered ''arcs-connect'' (el_listeners s) = [] \<Longrightarrow>
   dispatch env tg name detail hs s = (s', outs) \<Longrightarrow>
   (ArcsDisconnectListener, None) \<notin> set outs \<Longrightarrow>
   registered ''arcs-connect'' (el_listeners s') = []"
proof (induction hs arbitrary: s s' outs)
  case Nil
  then show ?case by simp
next
  case (Cons h hs)
  show ?case
  proof (cases "(name, h) \<in> set (listeners_of tg s)")
    case False
    with Cons.prems have "dispatch env tg name detail hs s = (s', outs)"
      by simp
    from Cons.IH [OF Cons.prems(1) this Cons.prems(3)] show ?thesis .
  next
    case True
    obtain r s1 where h: "run_handler env h detail s = (r, s1)"
      by (cases "run_handler env h detail s")
    obtain s2 outs2 where d: "dispatch env tg name detail hs s1 = (s2, outs2)"
      by (cases "dispatch env tg name detail hs s1")
    from True h d Cons.prems(2) have eq: "s' = s2" "outs = (h, r) # outs2"
      by simp_all
    from Cons.prems(3) eq have ne: "(h, r) \<noteq> (ArcsDisconnectListener, None)"
      by (metis list.set_intros(1))
    from Cons.prems(3) eq have rest: "(ArcsDisconnectListener, None) \<notin> set outs2"
      by (metis list.set_intros(2))
    from run_handler_connect_slot [OF Cons.prems(1) h ne]
    have "registered ''arcs-connect'' (el_listeners s1) = []" .
    from Cons.IH [OF this d rest] eq show ?thesis by simp
  qed
qed

lemma step_connect_slot:
  assumes "registered ''arcs-connect'' (el_listeners s) = []"
    and "step env t s = (s', outs)"
    and "(ArcsDisconnectListener, None) \<notin> set outs"
  shows "registered ''arcs-connect'' (el_listeners s') = []"
proof (cases t)
  case (ElEvent name detail)
  with assms(2) have "dispatch env Element name detail (registered name (el_listeners s)) s = (s', outs)"
    by (simp add: step_def)
  from dispatch_connect_slot [OF assms(1) this assms(3)] show ?thesis .
next
  case (WindowEvent name)
  with assms(2) have "dispatch env Window name JUndefined (registered name (window_listeners s)) s = (s', outs)"
    by (simp add: step_def)
  from dispatch_connect_slot [OF assms(1) this assms(3)] show ?thesis .
next
  case (BrokerMessage topic payload)
  show ?thesis
  proof (cases "\<exists>c. mqttClient s = Some c \<and> MessageListener \<in> set (on_message c)")
    case False
    with BrokerMessage assms(2) have "s' = s"
      by (auto simp add: step_def split: option.splits)
    with assms(1) show ?thesis by simp
  next
    case True
    with BrokerMessage assms(2) have "s' = snd (messageListener env topic payload s)"
      by (auto simp add: step_def split: prod.splits)
    with assms(1) show ?thesis
      by (simp add: messageListener_el_listeners)
  qed
qed

lemma run_connect_slot:
  "registered ''arcs-connect'' (el_listeners s) = [] \<Longrightarrow>
   (ArcsDisconnectListener, None) \<notin> set (snd (run env ts s)) \<Longrightarrow>
   registered ''arcs-connect'' (el_listeners (fst (run env ts s))) = []"
proof (induction ts arbitrary: s)
  case Nil
  then show ?case by simp
next
  case (Cons t ts)
  obtain s1 outs1 where st: "step env t s = (s1, outs1)"
    by (cases "step env t s")
  obtain s2 outs2 where rn: "run env ts s1 = (s2, outs2)"
    by (cases "run env ts s1")
  from st rn have r: "run env (t # ts) s = (s2, outs1 @ outs2)"
    by simp
  with Cons.prems(2) have a: "(ArcsDisconnectListener, None) \<notin> set outs1"
    and b: "(ArcsDisconnectListener, None) \<notin> set (snd (run env ts s1))"
    using rn by auto
  from step_connect_slot [OF Cons.prems(1) st a]
  have "registered ''arcs-connect'' (el_listeners s1) = []" .
  from Cons.IH [OF this b] r rn show ?case by simp
qed

lemma step_connect_ignored:
  "registered ''arcs-connect'' (el_listeners s) = [] \<Longrightarrow>
   step env (ElEvent ''arcs-connect'' detail) s = (s, [])"
  by (simp add: step_def)

lemma failed_connect_step:
  assumes "registered ''arcs-connect'' (el_listeners s) = [ArcsConnectListener]"
    and "''deviceName'' \<notin> fst ` set kvs"
  shows "step env (ElEvent ''arcs-connect'' (JObj kvs)) s =
      (s\<lparr>el_listeners := removeEventListener ''arcs-connect'' ArcsConnectListener (el_listeners s),
         window_listeners :=
           addEventListener ''beforeunload'' ArcsDisconnectListener (window_listeners s)\<rparr>,
       [(ArcsConnectListener,
         Some (EventDetailError (EventDetailError_message ''arcs-connect'' ''deviceName'' ''string'')))])"
  using assms registered_singleton_mem [OF assms(1)]
  by (simp add: step_def listeners_of_def arcsConnectListener_no_deviceName)

lemma init_connect_slot:
  "registered ''arcs-connect'' (el_listeners (init d)) = [ArcsConnectListener]"
  by (simp add: init_def registered_def addEventListener_def)

lemma failed_connect_example_run:
  "run example_env [WindowEvent ''beforeunload'']
     ((init example_data)\<lparr>el_listeners :=
          removeEventListener ''arcs-connect'' ArcsConnectListener (el_listeners (init example_data)),
        window_listeners :=
          addEventListener ''beforeunload'' ArcsDisconnectListener
            (window_listeners (init example_data))\<rparr>) =
     ((init example_data)\<lparr>el_listeners := [(''enter-vr'', EnterVRListener)],
        window_listeners := []\<rparr>,
      [(ArcsDisconnectListener, Some TypeError)])"
  by (simp add: step_def listeners_of_def registered_def arcsDisconnectListener_def Let_def
      init_def addEventListener_def removeEventListener_def)

text \<open>
  In every state an instance can reach, the element has either no listener for
  \<^verbatim>\<open>arcs-connect\<close> or exactly the one of \<^verbatim>\<open>init\<close>.
\<close>

lemma run_handler_slot_wf:
  assumes "registered ''arcs-connect'' (el_listeners s) \<in> {[], [ArcsConnectListener]}"
  shows "registered ''arcs-connect'' (el_listeners (snd (run_handler env h detail s)))
           \<in> {[], [ArcsConnectListener]}"
proof (cases h)
  case EnterVRListener
  with assms show ?thesis by (simp add: enterVRListener_el_listeners)
next
  case ArcsConnectListener
  with assms show ?thesis by (auto simp add: arcsConnectListener_connect_slot)
next
  case ArcsDisconnectListener
  with assms show ?thesis by (auto simp add: arcsDisconnectListener_connect_slot)
next
  case MessageListener
  with assms show ?thesis by simp
next
  case ActivateEventsListener
  with assms show ?thesis by (simp add: activateEventsListener_el_listeners)
next
  case DeactivateEventsListener
  with assms show ?thesis by (simp add: deactivateEventsListener_el_listeners)
qed

lemma dispatch_slot_wf:
  "registered ''arcs-connect'' (el_listeners s) \<in> {[], [ArcsConnectListener]} \<Longrightarrow>
   registered ''arcs-connect'' (el_listeners (fst (dispatch env tg name detail hs s)))
     \<in> {[], [ArcsConnectListener]}"
proof (induction hs arbitrary: s)
  case Nil
  then show ?case by simp
next
  case (Cons h hs)
  show ?case
  proof (cases "(name, h) \<in> set (listeners_of tg s)")
    case False
    with Cons show ?thesis by simp
  next
    case True
    from run_handler_slot_wf [OF Cons.prems, of env h detail]
    have "registered ''arcs-connect''
            (el_listeners (fst (dispatch env tg name detail hs (snd (run_handler env h detail s)))))
          \<in> {[], [ArcsConnectListener]}"
      by (rule Cons.IH)
    with True show ?thesis
      by (simp add: split_beta)
  qed
qed

lemma step_slot_wf:
  assumes "registered ''arcs-connect'' (el_listeners s) \<in> {[], [ArcsConnectListener]}"
  shows "registered ''arcs-connect'' (el_listeners (fst (step env t s)))
           \<in> {[], [ArcsConnectListener]}"
proof (cases t)
  case (ElEvent name detail)
  with dispatch_slot_wf [OF assms] show ?thesis by (simp add: step_def)
next
  case (WindowEvent name)
  with dispatch_slot_wf [OF assms] show ?thesis by (simp add: step_def)
next
  case (BrokerMessage topic payload)
  with assms show ?thesis
    by (simp add: step_def split_beta messageListener_el_listeners split: option.splits)
qed

lemma run_slot_wf:
  "registered ''arcs-connect'' (el_listeners s) \<in> {[], [ArcsConnectListener]} \<Longrightarrow>
   registered ''arcs-connect'' (el_listeners (fst (run env ts s))) \<in> {[], [ArcsConnectListener]}"
proof (induction ts arbitrary: s)
  case Nil
  then show ?case by simp
next
  case (Cons t ts)
  from Cons.IH [OF step_slot_wf [OF Cons.prems, of env t]]
  show ?case by (simp add: split_beta)
qed

lemma reachable_connect_slot:
  "registered ''arcs-connect'' (el_listeners (fst (run env ts (init d))))
     \<in> {[], [ArcsConnectListener]}"
  by (rule run_slot_wf) (simp add: init_connect_slot)

text \<open>
  C10. On an instance whose \<^verbatim>\<open>arcs-connect\<close> listener is attached, a connect event
  whose \<^verbatim>\<open>detail\<close> has no \<^verbatim>\<open>deviceName\<close> runs the listener, which fails with the
  \<open>EventDetailError\<close> after it has removed itself: no listener is left for
  \<^verbatim>\<open>arcs-connect\<close>. From then on, after any events and messages during which no
  disconnect ended without an error, a connect event runs no listener and changes
  nothing. A disconnect that ends without an error has the listener attached again.
\<close>

theorem failed_connect_detaches_listener:
  assumes "registered ''arcs-connect'' (el_listeners s) = [ArcsConnectListener]"
    and "''deviceName'' \<notin> fst ` set kvs"
  shows "step env (ElEvent ''arcs-connect'' (JObj kvs)) s =
      (s\<lparr>el_listeners := removeEventListener ''arcs-connect'' ArcsConnectListener (el_listeners s),
         window_listeners :=
           addEventListener ''beforeunload'' ArcsDisconnectListener (window_listeners s)\<rparr>,
       [(ArcsConnectListener,
         Some (EventDetailError (EventDetailError_message ''arcs-connect'' ''deviceName'' ''string'')))])
    \<and> registered ''arcs-connect''
         (el_listeners (fst (step env (ElEvent ''arcs-connect'' (JObj kvs)) s))) = []
    \<and> (\<forall>ts detail.
          (ArcsDisconnectListener, None) \<notin>
             set (snd (run env ts (fst (step env (ElEvent ''arcs-connect'' (JObj kvs)) s)))) \<longrightarrow>
          step env (ElEvent ''arcs-connect'' detail)
             (fst (run env ts (fst (step env (ElEvent ''arcs-connect'' (JObj kvs)) s)))) =
            (fst (run env ts (fst (step env (ElEvent ''arcs-connect'' (JObj kvs)) s))), []))
    \<and> (\<forall>s'. fst (arcsDisconnectListener env s') = None \<longrightarrow>
          ArcsConnectListener \<in>
            set (registered ''arcs-connect'' (el_listeners (snd (arcsDisconnectListener env s')))))"
proof (intro conjI allI impI)
  show "step env (ElEvent ''arcs-connect'' (JObj kvs)) s =
      (s\<lparr>el_listeners := removeEventListener ''arcs-connect'' ArcsConnectListener (el_listeners s),
         window_listeners :=
           addEventListener ''beforeunload'' ArcsDisconnectListener (window_listeners s)\<rparr>,
       [(ArcsConnectListener,
         Some (EventDetailError (EventDetailError_message ''arcs-connect'' ''deviceName'' ''string'')))])"
    by (rule failed_connect_step [OF assms])
next
  show slot: "registered ''arcs-connect''
         (el_listeners (fst (step env (ElEvent ''arcs-connect'' (JObj kvs)) s))) = []"
    using assms(1)
    by (simp only: failed_connect_step [OF assms] fst_conv)
       (simp add: registered_removeEventListener)
  fix ts detail
  assume "(ArcsDisconnectListener, None) \<notin>
             set (snd (run env ts (fst (step env (ElEvent ''arcs-connect'' (JObj kvs)) s))))"
  from run_connect_slot [OF slot this]
  show "step env (ElEvent ''arcs-connect'' detail)
             (fst (run env ts (fst (step env (ElEvent ''arcs-connect'' (JObj kvs)) s)))) =
            (fst (run env ts (fst (step env (ElEvent ''arcs-connect'' (JObj kvs)) s))), [])"
    by (rule step_connect_ignored)
next
  fix s'
  assume "fst (arcsDisconnectListener env s') = None"
  then show "ArcsConnectListener \<in>
            set (registered ''arcs-connect'' (el_listeners (snd (arcsDisconnectListener env s'))))"
    by (simp add: arcsDisconnectListener_connect_slot)
qed

theorem failed_connect_detaches_listener_witness:
  "registered ''arcs-connect'' (el_listeners (init example_data)) = [ArcsConnectListener]
   \<and> ''deviceName'' \<notin> fst ` set ([] :: (string \<times> jsval) list)
   \<and> step example_env (ElEvent ''arcs-connect'' (JObj [])) (init example_data) =
      ((init example_data)\<lparr>el_listeners :=
          removeEventListener ''arcs-connect'' ArcsConnectListener (el_listeners (init example_data)),
        window_listeners :=
          addEventListener ''beforeunload'' ArcsDisconnectListener
            (window_listeners (init example_data))\<rparr>,
       [(ArcsConnectListener,
         Some (EventDetailError (EventDetailError_message ''arcs-connect'' ''deviceName'' ''string'')))])
   \<and> snd (run example_env [WindowEvent ''beforeunload'']
        (fst (step example_env (ElEvent ''arcs-connect'' (JObj [])) (init example_data)))) =
      [(ArcsDisconnectListener, Some TypeError)]
   \<and> step example_env (ElEvent ''arcs-connect'' (JObj [(''deviceName'', JStr ''duck'')]))
        (fst (run example_env [WindowEvent ''beforeunload'']
           (fst (step example_env (ElEvent ''arcs-connect'' (JObj [])) (init example_data))))) =
      (fst (run example_env [WindowEvent ''beforeunload'']
           (fst (step example_env (ElEvent ''arcs-connect'' (JObj [])) (init example_data)))), [])"
proof -
  have a1: "registered ''arcs-connect'' (el_listeners (init example_data)) = [ArcsConnectListener]"
    by (rule init_connect_slot)
  have a2: "''deviceName'' \<notin> fst ` set ([] :: (string \<times> jsval) list)"
    by simp
  note T = failed_connect_detaches_listener [OF a1 a2, of example_env]
  from T have st: "step example_env (ElEvent ''arcs-connect'' (JObj [])) (init example_data) =
      ((init example_data)\<lparr>el_listeners :=
          removeEventListener ''arcs-connect'' ArcsConnectListener (el_listeners (init example_data)),
        window_listeners :=
          addEventListener ''beforeunload'' ArcsDisconnectListener
            (window_listeners (init example_data))\<rparr>,
       [(ArcsConnectListener,
         Some (EventDetailError (EventDetailError_message ''arcs-connect'' ''deviceName'' ''string'')))])"
    by (rule conjunct1)
  have outs: "snd (run example_env [WindowEvent ''beforeunload'']
        (fst (step example_env (ElEvent ''arcs-connect'' (JObj [])) (init example_data)))) =
      [(ArcsDisconnectListener, Some TypeError)]"
    by (simp only: st fst_conv failed_connect_example_run snd_conv)
  then have notin: "(ArcsDisconnectListener, None) \<notin>
      set (snd (run example_env [WindowEvent ''beforeunload'']
        (fst (step example_env (ElEvent ''arcs-connect'' (JObj [])) (init example_data)))))"
    by simp
  from T have "\<forall>ts detail.
          (ArcsDisconnectListener, None) \<notin>
             set (snd (run example_env ts
               (fst (step example_env (ElEvent ''arcs-connect'' (JObj [])) (init example_data))))) \<longrightarrow>
          step example_env (ElEvent ''arcs-connect'' detail)
             (fst (run example_env ts
               (fst (step example_env (ElEvent ''arcs-connect'' (JObj [])) (init example_data))))) =
            (fst (run example_env ts
               (fst (step example_env (ElEvent ''arcs-connect'' (JObj [])) (init example_data)))), [])"
    by (rule conjunct1 [OF conjunct2 [OF conjunct2]])
  with notin have ign: "step example_env (ElEvent ''arcs-connect'' (JObj [(''deviceName'', JStr ''duck'')]))
        (fst (run example_env [WindowEvent ''beforeunload'']
           (fst (step example_env (ElEvent ''arcs-connect'' (JObj [])) (init example_data))))) =
      (fst (run example_env [WindowEvent ''beforeunload'']
           (fst (step example_env (ElEvent ''arcs-connect'' (JObj [])) (init example_data)))), [])"
    by blast
  from a1 a2 st outs ign show ?thesis
    by (intro conjI)
qed

end
